theory Spec2Isabelle
  imports Main "HOL-Library.AList"
begin

section \<open>Data model\<close>

text \<open>
  Wall-clock instants (\<^verbatim>\<open>datetime.datetime\<close>, naive, as compared by the source after
  \<^verbatim>\<open>replace(tzinfo=None)\<close>) are integers counting microseconds; a
  \<^verbatim>\<open>timedelta(minutes=n)\<close> is \<open>minutes n\<close>. Every function that reads the clock takes
  the instant \<open>now\<close> of its call as an argument.
\<close>

type_synonym datetime = int

definition minutes :: "int \<Rightarrow> int" where
  "minutes n = n * 60000000"

definition BACKLOG_TIMEOUT :: int where
  "BACKLOG_TIMEOUT = 5"

text \<open>
  An event dictionary of the upstream, with the four keys the dispatch code reads.
  \<open>attribute_name\<close> is the empty string where the upstream gives no attribute name
  (Python's \<^verbatim>\<open>None\<close> and \<^verbatim>\<open>''\<close> are both false in the test of \<^verbatim>\<open>canProcess\<close>).
\<close>

record event =
  event_id :: int
  event_type :: string
  attribute_name :: string
  created_at :: datetime

datatype level = Debug | Info | Warning | Error | Critical

text \<open>The messages of the plugin and callback loggers, by format string.\<close>

datatype message =
    TimeoutElapsed int
  | ProcessedFromBacklog int
  | TooOld "int list" int
  | Dispatching "int list" string
  | SkippingInactive string
  | NeverHappened int
  | NeverHappenedRange int int
  | AddingToBacklog int
  | ErrorProcessing string
  | SkippingPlugin

text \<open>
  What a plugin does to the outside while it runs: it calls a user function
  (\<open>Invoke name argument\<close>) or writes to a logger.
\<close>

datatype 'a effect = Invoke string 'a | Log level message

datatype py_error = KeyError | ValueError | TypeError | AttributeError string | EventDaemonError

text \<open>
  \<^verbatim>\<open>matchEvents\<close>: a dictionary from event type (or \<^verbatim>\<open>'*'\<close>) to \<^verbatim>\<open>None\<close> or a list of
  attribute names, as an association list; \<open>[]\<close> stands for both \<^verbatim>\<open>None\<close> and \<^verbatim>\<open>{}\<close>.
\<close>

type_synonym matchEvents = "(string \<times> string list option) list"

text \<open>
  A callback object. The user function is \<open>cb_callback\<close>: applied to the event (or, for a
  \<^verbatim>\<open>BatchCallback\<close>, to the list of events) it tells whether the call raises. The type
  parameter is the argument the user function takes.
\<close>

record 'a callback =
  cb_name :: string
  cb_callback :: "'a \<Rightarrow> bool"
  cb_matchEvents :: matchEvents
  cb_stopOnError :: bool
  cb_active :: bool

text \<open>
  The backlog dictionary (skipped event id to expiration instant) is an association list in
  insertion order: \<^verbatim>\<open>d[k] = v\<close> is \<^const>\<open>AList.update\<close>, \<^verbatim>\<open>del d[k]\<close> is
  \<^const>\<open>AList.delete\<close>, \<^verbatim>\<open>k in d\<close> is \<open>in_dict k d\<close>.
\<close>

type_synonym backlog = "(int \<times> datetime) list"

definition in_dict :: "'k \<Rightarrow> ('k \<times> 'v) list \<Rightarrow> bool" where
  "in_dict k d = (map_of d k \<noteq> None)"

record 'a plugin =
  pluginName :: string
  active :: bool
  callbacks :: "'a callback list"
  lastEventId :: "int option"
  backlog :: backlog

section \<open>Callback\<close>

definition canProcess :: "'a callback \<Rightarrow> event \<Rightarrow> bool" where
  "canProcess cb e =
     (if cb_matchEvents cb = [] then True
      else
        (case (if in_dict ''*'' (cb_matchEvents cb) then map_of (cb_matchEvents cb) ''*''
               else map_of (cb_matchEvents cb) (event_type e)) of
           None \<Rightarrow> False
         | Some attributes \<Rightarrow>
             (case attributes of
                None \<Rightarrow> True
              | Some as \<Rightarrow>
                  if ''*'' \<in> set as then True
                  else if attribute_name e \<noteq> [] \<and> attribute_name e \<in> set as then True
                  else False)))"

text \<open>
  \<^verbatim>\<open>Callback.process\<close> and \<^verbatim>\<open>BatchCallback.process\<close>: call the user function; when it
  raises, log at critical (twice, once before and once inside the error-report branch) and
  deactivate the callback if \<^verbatim>\<open>stopOnError\<close>. The value returned by the source is
  \<open>cb_active\<close> of the callback returned here. The session id and the timing log are left
  out; the user function is a Python function, so that the traceback of its exception has
  the frame the handler reads.
\<close>

definition Callback_process :: "'a callback \<Rightarrow> 'a \<Rightarrow> 'a callback \<times> 'a effect list" where
  "Callback_process cb x =
     (if cb_callback cb x
      then (cb\<lparr>cb_active := (if cb_stopOnError cb then False else cb_active cb)\<rparr>,
            [Invoke (cb_name cb) x,
             Log Critical (ErrorProcessing (cb_name cb)),
             Log Critical (ErrorProcessing (cb_name cb))])
      else (cb, [Invoke (cb_name cb) x]))"

section \<open>Plugin\<close>

datatype plugin_state = IntState int | TupleState "int option" backlog

definition Plugin_setState :: "plugin_state \<Rightarrow> 'a plugin \<Rightarrow> 'a plugin" where
  "Plugin_setState state p =
     (case state of
        IntState s \<Rightarrow> p\<lparr>lastEventId := Some s\<rparr>
      | TupleState l b \<Rightarrow> p\<lparr>lastEventId := l, backlog := b\<rparr>)"

definition Plugin_getState :: "'a plugin \<Rightarrow> plugin_state" where
  "Plugin_getState p = TupleState (lastEventId p) (backlog p)"

text \<open>
  The loop of \<^verbatim>\<open>getNextUnprocessedEventId\<close> over the backlog: the remaining backlog, the
  next id and the warnings logged.
\<close>

fun backlog_scan :: "datetime \<Rightarrow> backlog \<Rightarrow> int option \<Rightarrow> backlog \<times> int option \<times> 'a effect list" where
  "backlog_scan now [] nextId = ([], nextId, [])"
| "backlog_scan now ((k, v) # kvs) nextId =
     (if v < now then
        (case backlog_scan now kvs nextId of
           (b, n, tr) \<Rightarrow> (b, n, Log Warning (TimeoutElapsed k) # tr))
      else if nextId = None \<or> k < the nextId then
        (case backlog_scan now kvs (Some k) of (b, n, tr) \<Rightarrow> ((k, v) # b, n, tr))
      else
        (case backlog_scan now kvs nextId of (b, n, tr) \<Rightarrow> ((k, v) # b, n, tr)))"

text \<open>The first test is Python's truth value of \<^verbatim>\<open>self._lastEventId\<close>: false for \<^verbatim>\<open>None\<close> and for 0.\<close>

definition getNextUnprocessedEventId :: "datetime \<Rightarrow> 'a plugin \<Rightarrow> int option \<times> 'a plugin \<times> 'a effect list" where
  "getNextUnprocessedEventId now p =
     (let nextId = (case lastEventId p of
                      None \<Rightarrow> None
                    | Some l \<Rightarrow> if l \<noteq> 0 then Some (l + 1) else None)
      in case backlog_scan now (backlog p) nextId of
           (b, n, tr) \<Rightarrow> (n, p\<lparr>backlog := b\<rparr>, tr))"

text \<open>
  The loop of \<^verbatim>\<open>Plugin._process\<close> over the callbacks, in registration order: the callbacks
  after the loop, whether the plugin was deactivated (the loop then stopped), the effects.
\<close>

fun Plugin__process_loop :: "event \<Rightarrow> event callback list \<Rightarrow> event callback list \<times> bool \<times> event effect list" where
  "Plugin__process_loop e [] = ([], False, [])"
| "Plugin__process_loop e (c # cs) =
     (if cb_active c then
        (if canProcess c e then
           (case Callback_process c e of
              (c', tr) \<Rightarrow>
                if \<not> cb_active c' then
                  (c' # cs, True, Log Debug (Dispatching [event_id e] (cb_name c)) # tr)
                else
                  (case Plugin__process_loop e cs of
                     (cs', d, tr') \<Rightarrow>
                       (c' # cs', d, Log Debug (Dispatching [event_id e] (cb_name c)) # tr @ tr')))
         else
           (case Plugin__process_loop e cs of (cs', d, tr') \<Rightarrow> (c # cs', d, tr')))
      else
        (case Plugin__process_loop e cs of
           (cs', d, tr') \<Rightarrow> (c # cs', d, Log Debug (SkippingInactive (cb_name c)) # tr')))"

text \<open>\<^verbatim>\<open>Plugin._process\<close>; the value the source returns is \<open>active\<close> of the plugin returned.\<close>

definition Plugin__process :: "event \<Rightarrow> event plugin \<Rightarrow> event plugin \<times> event effect list" where
  "Plugin__process e p =
     (case Plugin__process_loop e (callbacks p) of
        (cs', d, tr) \<Rightarrow> (p\<lparr>callbacks := cs', active := (if d then False else active p)\<rparr>, tr))"

definition Plugin__updateLastEventId :: "datetime \<Rightarrow> event \<Rightarrow> 'a plugin \<Rightarrow> 'a plugin \<times> 'a effect list" where
  "Plugin__updateLastEventId now e p =
     (case lastEventId p of
        None \<Rightarrow> (p\<lparr>lastEventId := Some (event_id e)\<rparr>, [])
      | Some l \<Rightarrow>
          if event_id e > l + 1 then
            (if now > created_at e + minutes BACKLOG_TIMEOUT then
               (p\<lparr>lastEventId := Some (event_id e)\<rparr>,
                [if event_id e = l + 2 then Log Info (NeverHappened (l + 1))
                 else Log Info (NeverHappenedRange (l + 1) (event_id e - 1))])
             else
               (let expiration = now + minutes BACKLOG_TIMEOUT in
                (p\<lparr>backlog := fold (\<lambda>skippedId. AList.update skippedId expiration)
                                  [l + 1 .. event_id e - 1] (backlog p),
                   lastEventId := Some (event_id e)\<rparr>,
                 map (\<lambda>skippedId. Log Info (AddingToBacklog skippedId)) [l + 1 .. event_id e - 1])))
          else (p\<lparr>lastEventId := Some (event_id e)\<rparr>, []))"

text \<open>\<^verbatim>\<open>Plugin.process\<close>; the value the source returns is \<open>active\<close> of the plugin returned.\<close>

definition Plugin_process :: "datetime \<Rightarrow> event \<Rightarrow> event plugin \<Rightarrow> event plugin \<times> event effect list" where
  "Plugin_process now e p =
     (if in_dict (event_id e) (backlog p) then
        (case Plugin__process e p of
           (p1, tr) \<Rightarrow>
             if active p1 then
               (case Plugin__updateLastEventId now e
                       (p1\<lparr>backlog := AList.delete (event_id e) (backlog p1)\<rparr>) of
                  (p2, tr2) \<Rightarrow> (p2, tr @ Log Info (ProcessedFromBacklog (event_id e)) # tr2))
             else (p1, tr))
      else if lastEventId p \<noteq> None \<and> event_id e \<le> the (lastEventId p) then
        (p, [Log Debug (TooOld [event_id e] (the (lastEventId p)))])
      else
        (case Plugin__process e p of
           (p1, tr) \<Rightarrow>
             if active p1 then
               (case Plugin__updateLastEventId now e p1 of (p2, tr2) \<Rightarrow> (p2, tr @ tr2))
             else (p1, tr)))"

section \<open>BatchPlugin\<close>

text \<open>The loop of \<^verbatim>\<open>BatchPlugin._process\<close> over the callbacks.\<close>

fun BatchPlugin__process_loop :: "event list \<Rightarrow> event list callback list \<Rightarrow> event list callback list \<times> bool \<times> event list effect list" where
  "BatchPlugin__process_loop events [] = ([], False, [])"
| "BatchPlugin__process_loop events (c # cs) =
     (if cb_active c then
        (if filter (canProcess c) events \<noteq> [] then
           (case Callback_process c (filter (canProcess c) events) of
              (c', tr) \<Rightarrow>
                if \<not> cb_active c' then
                  (c' # cs, True,
                   Log Debug (Dispatching (map event_id (filter (canProcess c) events)) (cb_name c)) # tr)
                else
                  (case BatchPlugin__process_loop events cs of
                     (cs', d, tr') \<Rightarrow>
                       (c' # cs', d,
                        Log Debug (Dispatching (map event_id (filter (canProcess c) events)) (cb_name c))
                          # tr @ tr')))
         else
           (case BatchPlugin__process_loop events cs of (cs', d, tr') \<Rightarrow> (c # cs', d, tr')))
      else
        (case BatchPlugin__process_loop events cs of
           (cs', d, tr') \<Rightarrow> (c # cs', d, Log Debug (SkippingInactive (cb_name c)) # tr')))"

definition BatchPlugin__process :: "event list \<Rightarrow> event list plugin \<Rightarrow> event list plugin \<times> event list effect list" where
  "BatchPlugin__process events p =
     (case BatchPlugin__process_loop events (callbacks p) of
        (cs', d, tr) \<Rightarrow> (p\<lparr>callbacks := cs', active := (if d then False else active p)\<rparr>, tr))"

text \<open>
  The loop over \<^verbatim>\<open>events_in_backlog\<close> after a dispatch that left the plugin active.
  \<^verbatim>\<open>del self._backlog[id]\<close> raises \<^verbatim>\<open>KeyError\<close> when the id is no longer a key.
\<close>

fun BatchPlugin_backlog_loop :: "datetime \<Rightarrow> event list \<Rightarrow> 'a plugin \<Rightarrow> py_error + ('a plugin \<times> 'a effect list)" where
  "BatchPlugin_backlog_loop now [] p = Inr (p, [])"
| "BatchPlugin_backlog_loop now (e # es) p =
     (if \<not> in_dict (event_id e) (backlog p) then Inl KeyError
      else
        (case Plugin__updateLastEventId now e
                (p\<lparr>backlog := AList.delete (event_id e) (backlog p)\<rparr>) of
           (p1, tr) \<Rightarrow>
             (case BatchPlugin_backlog_loop now es p1 of
                Inl err \<Rightarrow> Inl err
              | Inr (p2, tr2) \<Rightarrow>
                  Inr (p2, Log Info (ProcessedFromBacklog (event_id e)) # tr @ tr2))))"

text \<open>The loop over all the events after a dispatch with no backlog event and no old event.\<close>

fun BatchPlugin_update_loop :: "datetime \<Rightarrow> event list \<Rightarrow> 'a plugin \<Rightarrow> 'a plugin \<times> 'a effect list" where
  "BatchPlugin_update_loop now [] p = (p, [])"
| "BatchPlugin_update_loop now (e # es) p =
     (case Plugin__updateLastEventId now e p of
        (p1, tr) \<Rightarrow>
          (case BatchPlugin_update_loop now es p1 of (p2, tr2) \<Rightarrow> (p2, tr @ tr2)))"

definition BatchPlugin_process :: "datetime \<Rightarrow> event list \<Rightarrow> event list plugin \<Rightarrow> py_error + (event list plugin \<times> event list effect list)" where
  "BatchPlugin_process now events p =
     (let events_in_backlog = filter (\<lambda>event. in_dict (event_id event) (backlog p)) events;
          old_events = filter (\<lambda>event. lastEventId p \<noteq> None \<and>
                                   event_id event \<le> the (lastEventId p)) events
      in if events_in_backlog \<noteq> [] then
           (case BatchPlugin__process events p of
              (p1, tr) \<Rightarrow>
                if active p1 then
                  (case BatchPlugin_backlog_loop now events_in_backlog p1 of
                     Inl err \<Rightarrow> Inl err
                   | Inr (p2, tr2) \<Rightarrow> Inr (p2, tr @ tr2))
                else Inr (p1, tr))
         else if old_events \<noteq> [] then
           Inr (p, [Log Debug (TooOld (map event_id old_events) (the (lastEventId p)))])
         else
           (case BatchPlugin__process events p of
              (p1, tr) \<Rightarrow>
                if active p1 then
                  (case BatchPlugin_update_loop now events p1 of (p2, tr2) \<Rightarrow> Inr (p2, tr @ tr2))
                else Inr (p1, tr)))"

section \<open>PluginCollection\<close>

text \<open>
  A collection holds its plugins in the order in which \<^verbatim>\<open>__iter__\<close> yields them (sorted
  by file name), and \<^verbatim>\<open>_stateData\<close>, a dictionary from plugin name to a state. The effects
  of a collection are the effects of its plugins, each with the name of the plugin.
\<close>

record 'a pluginCollection =
  path :: string
  plugins :: "'a plugin list"
  stateData :: "(string \<times> plugin_state) list"

text \<open>The argument of \<^verbatim>\<open>PluginCollection.setState\<close>: an integer or a dictionary.\<close>

datatype collection_state = BareInt int | Mapping "(string \<times> plugin_state) list"

text \<open>Python's truth value of a plugin state: an integer is false when 0, a pair is true.\<close>

definition truthy :: "plugin_state \<Rightarrow> bool" where
  "truthy st = (case st of IntState n \<Rightarrow> n \<noteq> 0 | TupleState l b \<Rightarrow> True)"

fun PluginCollection_setState_int_loop :: "int \<Rightarrow> 'a plugin list \<Rightarrow> (string \<times> plugin_state) list \<Rightarrow> 'a plugin list \<times> (string \<times> plugin_state) list" where
  "PluginCollection_setState_int_loop s [] sd = ([], sd)"
| "PluginCollection_setState_int_loop s (p # ps) sd =
     (case PluginCollection_setState_int_loop s ps
             (AList.update (pluginName p) (Plugin_getState (Plugin_setState (IntState s) p)) sd) of
        (ps', sd') \<Rightarrow> (Plugin_setState (IntState s) p # ps', sd'))"

definition PluginCollection_setState :: "collection_state \<Rightarrow> 'a pluginCollection \<Rightarrow> 'a pluginCollection" where
  "PluginCollection_setState state c =
     (case state of
        BareInt s \<Rightarrow>
          (case PluginCollection_setState_int_loop s (plugins c) (stateData c) of
             (ps, sd) \<Rightarrow> c\<lparr>plugins := ps, stateData := sd\<rparr>)
      | Mapping m \<Rightarrow>
          c\<lparr>plugins := map (\<lambda>p. case map_of m (pluginName p) of
                                   None \<Rightarrow> p
                                 | Some pluginState \<Rightarrow>
                                     if truthy pluginState then Plugin_setState pluginState p else p)
                          (plugins c),
            stateData := m\<rparr>)"

text \<open>\<^verbatim>\<open>getState\<close> refreshes the entries of the present plugins and returns the dictionary.\<close>

definition PluginCollection_getState :: "'a pluginCollection \<Rightarrow> 'a pluginCollection \<times> (string \<times> plugin_state) list" where
  "PluginCollection_getState c =
     (let sd = fold (\<lambda>p. AList.update (pluginName p) (Plugin_getState p)) (plugins c) (stateData c)
      in (c\<lparr>stateData := sd\<rparr>, sd))"

fun PluginCollection_getNextUnprocessedEventId_loop :: "datetime \<Rightarrow> 'a plugin list \<Rightarrow> int option \<Rightarrow> 'a plugin list \<times> int option \<times> (string \<times> 'a effect) list" where
  "PluginCollection_getNextUnprocessedEventId_loop now [] eId = ([], eId, [])"
| "PluginCollection_getNextUnprocessedEventId_loop now (p # ps) eId =
     (if \<not> active p then
        (case PluginCollection_getNextUnprocessedEventId_loop now ps eId of
           (ps', r, tr') \<Rightarrow> (p # ps', r, tr'))
      else
        (case getNextUnprocessedEventId now p of
           (newId, p', tr) \<Rightarrow>
             (case PluginCollection_getNextUnprocessedEventId_loop now ps
                     (if newId \<noteq> None \<and> (eId = None \<or> the newId < the eId) then newId else eId) of
                (ps', r, tr') \<Rightarrow> (p' # ps', r, map (Pair (pluginName p)) tr @ tr'))))"

definition PluginCollection_getNextUnprocessedEventId :: "datetime \<Rightarrow> 'a pluginCollection \<Rightarrow> int option \<times> 'a pluginCollection \<times> (string \<times> 'a effect) list" where
  "PluginCollection_getNextUnprocessedEventId now c =
     (case PluginCollection_getNextUnprocessedEventId_loop now (plugins c) None of
        (ps, r, tr) \<Rightarrow> (r, c\<lparr>plugins := ps\<rparr>, tr))"



section \<open>Engine\<close>

text \<open>
  The upstream client is outside the repository. A call of \<^verbatim>\<open>self._sg.find\<close> either
  returns a list of events or raises; the three connection errors caught together and any
  other exception are told apart, each with its text.
\<close>

datatype sg_error = ProtocolError string | ResponseError string | SocketError string
  | OtherException string

datatype 'r sg_result = Returned 'r | Raised sg_error

text \<open>The text handed to \<^verbatim>\<open>_writeConnectionAttemptLog\<close> by the two handlers.\<close>

definition attempt_message :: "sg_error \<Rightarrow> string" where
  "attempt_message err =
     (case err of
        ProtocolError s \<Rightarrow> s
      | ResponseError s \<Rightarrow> s
      | SocketError s \<Rightarrow> s
      | OtherException s \<Rightarrow> ''Unknown error: '' @ s)"

datatype engine_message = UnableToConnect int int string | GotEvents nat int int

text \<open>
  What the engine does to the outside: it writes to its own logger, sleeps, and its plugins
  have their effects (with the name of the plugin).
\<close>

datatype 'a engine_effect = EngineLog level engine_message | Sleep int
  | PluginEffect string "'a effect"

record 'a engine =
  pluginCollections :: "'a pluginCollection list"
  maxConnRetries :: int
  connRetrySleep :: int
  eventIdData :: "(string \<times> (string \<times> plugin_state) list) list"

definition Engine__writeConnectionAttemptLog :: "'a engine \<Rightarrow> int \<Rightarrow> string \<Rightarrow> 'a engine_effect list" where
  "Engine__writeConnectionAttemptLog eng conn_attempts msg =
     (if conn_attempts = maxConnRetries eng - 1 then
        [EngineLog Error (UnableToConnect conn_attempts (maxConnRetries eng) msg),
         Sleep (connRetrySleep eng)]
      else
        [EngineLog Warning (UnableToConnect conn_attempts (maxConnRetries eng) msg)])"

text \<open>
  The first half of \<^verbatim>\<open>_getNewEvents\<close>: every collection is asked for its next unprocessed
  id (which prunes the expired backlog keys of its active plugins), then the least of the
  ids that are not \<^verbatim>\<open>None\<close> is taken.
\<close>

fun Engine_collect_nextIds :: "datetime \<Rightarrow> 'a pluginCollection list \<Rightarrow> 'a pluginCollection list \<times> int option list \<times> 'a engine_effect list" where
  "Engine_collect_nextIds now [] = ([], [], [])"
| "Engine_collect_nextIds now (coll # colls) =
     (case PluginCollection_getNextUnprocessedEventId now coll of
        (newId, coll', tr) \<Rightarrow>
          (case Engine_collect_nextIds now colls of
             (colls', ids, tr') \<Rightarrow>
               (coll' # colls', newId # ids, map (\<lambda>(n, x). PluginEffect n x) tr @ tr')))"

fun Engine_least_nextId :: "int option list \<Rightarrow> int option \<Rightarrow> int option" where
  "Engine_least_nextId [] nextEventId = nextEventId"
| "Engine_least_nextId (newId # ids) nextEventId =
     Engine_least_nextId ids
       (if newId \<noteq> None \<and> (nextEventId = None \<or> the newId < the nextEventId) then newId
        else nextEventId)"

text \<open>
  The loop \<^verbatim>\<open>for conn_attempts in range(self._maxConnRetries)\<close>, over the attempt numbers
  still to try. \<open>sg_find b i\<close> is the outcome of the call of \<^verbatim>\<open>self._sg.find\<close> made at attempt
  \<open>i\<close> with the filter \<^verbatim>\<open>id greater_than b\<close> (ascending, at most the batch size). The
  result is \<^verbatim>\<open>None\<close> when the loop ends without a return.
\<close>

fun Engine__getNewEvents_attempts :: "(int \<Rightarrow> int \<Rightarrow> event list sg_result) \<Rightarrow> 'a engine \<Rightarrow> int \<Rightarrow> int list \<Rightarrow> event list option \<times> 'a engine_effect list" where
  "Engine__getNewEvents_attempts sg_find eng b [] = (None, [])"
| "Engine__getNewEvents_attempts sg_find eng b (conn_attempts # rest) =
     (case sg_find b conn_attempts of
        Returned events \<Rightarrow>
          (Some events,
           if events \<noteq> [] then
             [EngineLog Debug (GotEvents (length events) (event_id (hd events)) (event_id (last events)))]
           else [])
      | Raised err \<Rightarrow>
          (case Engine__getNewEvents_attempts sg_find eng b rest of
             (r, tr) \<Rightarrow> (r, Engine__writeConnectionAttemptLog eng conn_attempts (attempt_message err) @ tr)))"

definition Engine__getNewEvents :: "datetime \<Rightarrow> (int \<Rightarrow> int \<Rightarrow> event list sg_result) \<Rightarrow> 'a engine \<Rightarrow> event list \<times> 'a engine \<times> 'a engine_effect list" where
  "Engine__getNewEvents now sg_find eng =
     (case Engine_collect_nextIds now (pluginCollections eng) of
        (colls, ids, tr) \<Rightarrow>
          (case Engine_least_nextId ids None of
             None \<Rightarrow> ([], eng\<lparr>pluginCollections := colls\<rparr>, tr)
           | Some nextEventId \<Rightarrow>
               (case Engine__getNewEvents_attempts sg_find (eng\<lparr>pluginCollections := colls\<rparr>)
                       (nextEventId - 1) [0 .. maxConnRetries eng - 1] of
                  (None, tr') \<Rightarrow> ([], eng\<lparr>pluginCollections := colls\<rparr>, tr @ tr')
                | (Some events, tr') \<Rightarrow> (events, eng\<lparr>pluginCollections := colls\<rparr>, tr @ tr'))))"

section \<open>Registrar\<close>









section \<open>Loading the persisted cursors\<close>




definition isdigit :: "string \<Rightarrow> bool" where
  "isdigit s = (s \<noteq> [] \<and> list_all (\<lambda>c. c \<in> set ''0123456789'') s)"

definition digit_value :: "char \<Rightarrow> int" where
  "digit_value c = int (length (takeWhile (\<lambda>d. d \<noteq> c) ''0123456789''))"

definition int_of_digits :: "string \<Rightarrow> int" where
  "int_of_digits s = fold (\<lambda>c n. 10 * n + digit_value c) s 0"

text \<open>
  \<^verbatim>\<open>pickle.load\<close> belongs to the Python library: on the bytes of the file it returns the
  dictionary that was saved, raises \<^verbatim>\<open>UnpicklingError\<close>, or fails in another way. It is a
  parameter of the model.
\<close>

type_synonym eventIdData = "(string \<times> (string \<times> plugin_state) list) list"


text \<open>
  The configured id file: not configured (\<^verbatim>\<open>None\<close>), absent from the disk, present
  but not openable (\<^verbatim>\<open>OSError\<close>), or present with its bytes.
\<close>

datatype id_file = NotConfigured | Missing | OpenFails | FileBytes string












section \<open>The filter of the specification\<close>

text \<open>
  The matching rule in the words of the specification, to be compared with
  \<^const>\<open>canProcess\<close>: the filter has an entry for the event's type or a wildcard entry, and
  the attribute set of that entry is all-attributes (\<^verbatim>\<open>None\<close>, or a list holding
  \<^verbatim>\<open>'*'\<close>) or contains the event's attribute name.
\<close>

definition spec_attrs_match :: "string list option \<Rightarrow> event \<Rightarrow> bool" where
  "spec_attrs_match attrs e =
     (case attrs of None \<Rightarrow> True | Some as \<Rightarrow> ''*'' \<in> set as \<or> attribute_name e \<in> set as)"

definition spec_filter_matches :: "matchEvents \<Rightarrow> event \<Rightarrow> bool" where
  "spec_filter_matches F e =
     ((case map_of F (event_type e) of None \<Rightarrow> False | Some attrs \<Rightarrow> spec_attrs_match attrs e) \<or>
      (case map_of F ''*'' of None \<Rightarrow> False | Some attrs \<Rightarrow> spec_attrs_match attrs e))"

text \<open>The entry \<^const>\<open>canProcess\<close> consults: the wildcard entry when there is one.\<close>

definition filter_entry :: "matchEvents \<Rightarrow> event \<Rightarrow> string list option option" where
  "filter_entry F e = (if in_dict ''*'' F then map_of F ''*'' else map_of F (event_type e))"

section \<open>Auxiliary notions for the statements\<close>

definition keep_least :: "int \<Rightarrow> int option \<Rightarrow> int option" where
  "keep_least k n = (case n of None \<Rightarrow> Some k | Some m \<Rightarrow> Some (min k m))"

text \<open>The calls of user functions among the effects, in order: callback name and argument.\<close>

fun invocations :: "'a effect list \<Rightarrow> (string \<times> 'a) list" where
  "invocations [] = []"
| "invocations (Invoke n x # tr) = (n, x) # invocations tr"
| "invocations (Log l m # tr) = invocations tr"

text \<open>
  A run of a plugin: \<^verbatim>\<open>process\<close> is called on each event in turn, at the given instant;
  the result is the value of \<^verbatim>\<open>lastId\<close> after each call.
\<close>

fun Plugin_process_run :: "(datetime \<times> event) list \<Rightarrow> event plugin \<Rightarrow> int option list" where
  "Plugin_process_run [] p = []"
| "Plugin_process_run ((now, e) # es) p =
     lastEventId (fst (Plugin_process now e p)) # Plugin_process_run es (fst (Plugin_process now e p))"

text \<open>
  The plugin after a run, and whether the run is free of backlog replays: no event of the
  run has an id that is a key of the backlog at the time of its call.
\<close>

fun Plugin_process_all :: "(datetime \<times> event) list \<Rightarrow> event plugin \<Rightarrow> event plugin" where
  "Plugin_process_all [] p = p"
| "Plugin_process_all ((now, e) # es) p = Plugin_process_all es (fst (Plugin_process now e p))"




text \<open>
  What asking for the next unprocessed id does to a plugin of a collection: an active plugin
  loses the backlog keys whose expiration is before now, an inactive plugin is not asked.
\<close>

definition prune_expired :: "datetime \<Rightarrow> 'a plugin \<Rightarrow> 'a plugin" where
  "prune_expired now p =
     (if active p then p\<lparr>backlog := filter (\<lambda>(k, v). \<not> v < now) (backlog p)\<rparr> else p)"

text \<open>The text logged for a failed attempt.\<close>

definition failure_text :: "'r sg_result \<Rightarrow> string" where
  "failure_text r = (case r of Raised err \<Rightarrow> attempt_message err | Returned x \<Rightarrow> [])"

text \<open>The next id the engine asks the upstream for, as \<^verbatim>\<open>_getNewEvents\<close> computes it.\<close>

definition Engine_nextEventId :: "datetime \<Rightarrow> 'a engine \<Rightarrow> int option" where
  "Engine_nextEventId now eng =
     Engine_least_nextId (fst (snd (Engine_collect_nextIds now (pluginCollections eng)))) None"

text \<open>The decimal numeral of a natural number, as an old-style id file holds it.\<close>

function decimal :: "nat \<Rightarrow> string" where
  "decimal n =
     (if n < 10 then [''0123456789'' ! n]
      else decimal (n div 10) @ [''0123456789'' ! (n mod 10)])"
  by pat_completeness auto
termination
  by (relation "measure id") auto

declare decimal.simps [simp del]

section \<open>Properties of the event filter\<close>

text \<open>
  Claim C5, as amended. For a callback with a non-empty filter, \<^verbatim>\<open>canProcess\<close> returns
  true iff the entry consulted (the wildcard entry when the filter has one, otherwise the
  entry of the event's type) exists and its attribute set is \<^verbatim>\<open>None\<close>, or holds
  \<^verbatim>\<open>'*'\<close>, or holds the event's attribute name and that name is not empty.
\<close>

theorem canProcess_filter_entry:
  "cb_matchEvents cb \<noteq> [] \<Longrightarrow>
   canProcess cb e \<longleftrightarrow>
     (\<exists>attrs. filter_entry (cb_matchEvents cb) e = Some attrs \<and>
        (attrs = None \<or> ''*'' \<in> set (the attrs) \<or>
         (attribute_name e \<noteq> [] \<and> attribute_name e \<in> set (the attrs))))"
  by (auto simp: canProcess_def filter_entry_def split: option.splits)

theorem canProcess_filter_entry_witness:
  "[(''Shotgun_Task_Change'', Some [''sg_status_list''])] \<noteq> [] \<and>
   canProcess
     \<lparr>cb_name = ''cb'', cb_callback = (\<lambda>e::event. False),
      cb_matchEvents = [(''Shotgun_Task_Change'', Some [''sg_status_list''])],
      cb_stopOnError = False, cb_active = True\<rparr>
     \<lparr>event_id = 1, event_type = ''Shotgun_Task_Change'',
      attribute_name = ''sg_status_list'', created_at = 0\<rparr>"
  using canProcess_filter_entry
    [of "\<lparr>cb_name = ''cb'', cb_callback = (\<lambda>e::event. False),
          cb_matchEvents = [(''Shotgun_Task_Change'', Some [''sg_status_list''])],
          cb_stopOnError = False, cb_active = True\<rparr>"
        "\<lparr>event_id = 1, event_type = ''Shotgun_Task_Change'',
          attribute_name = ''sg_status_list'', created_at = 0\<rparr>"]
  by (simp add: filter_entry_def in_dict_def)

text \<open>
  The claim as written fails where the event has no attribute name and the attribute list
  of its entry holds the empty name: the specification's rule matches, the code does not.
\<close>

theorem canProcess_spec_counterexample:
  "canProcess
     \<lparr>cb_name = ''cb'', cb_callback = (\<lambda>e::event. False),
      cb_matchEvents = [(''T'', Some [''''])], cb_stopOnError = False, cb_active = True\<rparr>
     \<lparr>event_id = 1, event_type = ''T'', attribute_name = '''', created_at = 0\<rparr>
   \<noteq> spec_filter_matches [(''T'', Some [''''])]
     \<lparr>event_id = 1, event_type = ''T'', attribute_name = '''', created_at = 0\<rparr>"
  by (simp add: canProcess_def spec_filter_matches_def spec_attrs_match_def in_dict_def)

text \<open>
  The wildcard entry takes precedence over the entry of the event's type: here the type's
  entry admits every attribute, the wildcard entry does not admit \<^verbatim>\<open>'b'\<close>.
\<close>

lemma canProcess_wildcard_precedence:
  "\<not> canProcess
     \<lparr>cb_name = ''cb'', cb_callback = (\<lambda>e::event. False),
      cb_matchEvents = [(''*'', Some [''a'']), (''T'', None)],
      cb_stopOnError = False, cb_active = True\<rparr>
     \<lparr>event_id = 1, event_type = ''T'', attribute_name = ''b'', created_at = 0\<rparr>"
  by (simp add: canProcess_def in_dict_def)

text \<open>
  Where the two readings cannot differ (a named attribute, and not both a wildcard entry and
  an entry of the event's type), the code and the specification's rule agree.
\<close>

lemma canProcess_agrees_with_spec:
  "cb_matchEvents cb \<noteq> [] \<Longrightarrow> attribute_name e \<noteq> [] \<Longrightarrow>
   \<not> (in_dict ''*'' (cb_matchEvents cb) \<and> in_dict (event_type e) (cb_matchEvents cb) \<and>
      event_type e \<noteq> ''*'') \<Longrightarrow>
   canProcess cb e = spec_filter_matches (cb_matchEvents cb) e"
  by (auto simp: canProcess_def spec_filter_matches_def spec_attrs_match_def in_dict_def
      split: option.splits)

section \<open>Properties of the next unprocessed event id\<close>

lemma backlog_scan_backlog:
  "fst (backlog_scan now b n) = filter (\<lambda>(k, v). \<not> v < now) b"
  by (induction b arbitrary: n) (auto simp: case_prod_beta)

lemma backlog_scan_log:
  "snd (snd (backlog_scan now b n)) =
     map (\<lambda>k. Log Warning (TimeoutElapsed k)) (map fst (filter (\<lambda>(k, v). v < now) b))"
  by (induction b arbitrary: n) (auto simp: case_prod_beta)

lemma backlog_scan_next:
  "fst (snd (backlog_scan now b n)) =
     fold keep_least (map fst (filter (\<lambda>(k, v). \<not> v < now) b)) n"
  by (induction b arbitrary: n)
     (auto simp: case_prod_beta keep_least_def min_def split: option.splits)

lemma Min_insert_insert:
  "finite S \<Longrightarrow> Min (insert a (insert b S)) = Min (insert (min a b) (S :: int set))"
  by (cases "S = {}") (simp_all add: min.assoc)

lemma fold_keep_least_Some:
  "fold keep_least ks (Some m) = Some (Min (insert m (set ks)))"
proof (induction ks arbitrary: m)
  case Nil
  then show ?case by simp
next
  case (Cons k ks)
  have "Min (insert m (insert k (set ks))) = Min (insert (min k m) (set ks))"
    using Min_insert_insert [of "set ks" m k] by (simp add: min.commute)
  then show ?case using Cons.IH [of "min k m"] by (simp add: keep_least_def)
qed

lemma fold_keep_least_None:
  "fold keep_least ks None = (if ks = [] then None else Some (Min (set ks)))"
  by (cases ks) (simp_all add: keep_least_def fold_keep_least_Some)

text \<open>
  Claim C3, as amended. For a plugin whose \<^verbatim>\<open>lastId\<close> is null or not zero,
  \<^verbatim>\<open>getNextUnprocessedEventId\<close> removes from the backlog exactly the keys whose expiration
  is before now, logs a warning for each of them in order, and returns the least of
  \<^verbatim>\<open>lastId + 1\<close> (when \<^verbatim>\<open>lastId\<close> is not null) and the remaining keys; it returns none
  only when \<^verbatim>\<open>lastId\<close> is null and no key remains.
\<close>

theorem getNextUnprocessedEventId_min:
  assumes "lastEventId p \<noteq> Some 0"
  shows "getNextUnprocessedEventId now p =
     (let live = filter (\<lambda>(k, v). \<not> v < now) (backlog p);
          expired = filter (\<lambda>(k, v). v < now) (backlog p)
      in ((case lastEventId p of
             None \<Rightarrow> if live = [] then None else Some (Min (set (map fst live)))
           | Some l \<Rightarrow> Some (Min (insert (l + 1) (set (map fst live))))),
          p\<lparr>backlog := live\<rparr>,
          map (\<lambda>k. Log Warning (TimeoutElapsed k)) (map fst expired)))"
proof (cases "lastEventId p")
  case None
  then show ?thesis
    by (simp add: getNextUnprocessedEventId_def Let_def case_prod_beta backlog_scan_backlog
        backlog_scan_log backlog_scan_next fold_keep_least_None)
next
  case (Some l)
  then have "l \<noteq> 0" using assms by simp
  then show ?thesis using Some
    by (simp add: getNextUnprocessedEventId_def Let_def case_prod_beta backlog_scan_backlog
        backlog_scan_log backlog_scan_next fold_keep_least_Some)
qed

theorem getNextUnprocessedEventId_min_witness:
  "Some (13::int) \<noteq> Some 0 \<and>
   getNextUnprocessedEventId 50
     \<lparr>pluginName = ''p'', active = True, callbacks = [] :: event callback list,
      lastEventId = Some 13, backlog = [(12, 100), (9, 20), (11, 70)]\<rparr>
   = (Some 11,
      \<lparr>pluginName = ''p'', active = True, callbacks = [] :: event callback list,
       lastEventId = Some 13, backlog = [(12, 100), (11, 70)]\<rparr>,
      [Log Warning (TimeoutElapsed 9) :: event effect])"
  using getNextUnprocessedEventId_min
    [of "\<lparr>pluginName = ''p'', active = True, callbacks = [] :: event callback list,
          lastEventId = Some 13, backlog = [(12, 100), (9, 20), (11, 70)]\<rparr>" 50]
  by simp

text \<open>
  The claim as written says the result is none when \<^verbatim>\<open>lastId\<close> is null; with a key that
  has not expired in the backlog the result is that key.
\<close>

theorem getNextUnprocessedEventId_null_counterexample:
  "fst (getNextUnprocessedEventId 0
     \<lparr>pluginName = ''p'', active = True, callbacks = [] :: event callback list,
      lastEventId = None, backlog = [(5, 100)]\<rparr>) = Some 5"
  by (simp add: getNextUnprocessedEventId_def)

section \<open>Properties of the dispatch of one event by a plugin\<close>

lemma Plugin__process_lastEventId [simp]:
  "lastEventId (fst (Plugin__process e p)) = lastEventId p"
  by (simp add: Plugin__process_def case_prod_beta)



lemma updateLastEventId_lastEventId [simp]:
  "lastEventId (fst (Plugin__updateLastEventId now e p)) = Some (event_id e)"
  by (simp add: Plugin__updateLastEventId_def Let_def split: option.splits)











text \<open>
  The scenario of a gap past the timeout: cursor 10, event 14 created ten minutes ago; the
  ids 11 to 13 are logged as never happened and the backlog stays empty.
\<close>

lemma gap_past_timeout_scenario:
  "Plugin_process 600000000
     \<lparr>event_id = 14, event_type = ''T'', attribute_name = '''', created_at = 0\<rparr>
     \<lparr>pluginName = ''p'', active = True, callbacks = [] :: event callback list,
      lastEventId = Some 10, backlog = []\<rparr>
   = (\<lparr>pluginName = ''p'', active = True, callbacks = [],
       lastEventId = Some 14, backlog = []\<rparr>,
      [Log Info (NeverHappenedRange 11 13)])"
  by (simp add: Plugin_process_def Plugin__process_def Plugin__updateLastEventId_def in_dict_def
      minutes_def BACKLOG_TIMEOUT_def)


text \<open>The cursor and the backlog keys after each of the first three calls of that run.\<close>

lemma gap_discarded_id_run_states:
  "map (\<lambda>es. (lastEventId (Plugin_process_all es
          \<lparr>pluginName = ''p'', active = True,
           callbacks = [\<lparr>cb_name = ''B'', cb_callback = (\<lambda>e. False), cb_matchEvents = [],
                         cb_stopOnError = False, cb_active = True\<rparr>],
           lastEventId = Some 3, backlog = []\<rparr>),
        map fst (backlog (Plugin_process_all es
          \<lparr>pluginName = ''p'', active = True,
           callbacks = [\<lparr>cb_name = ''B'', cb_callback = (\<lambda>e. False), cb_matchEvents = [],
                         cb_stopOnError = False, cb_active = True\<rparr>],
           lastEventId = Some 3, backlog = []\<rparr>))))
     [[(600000000, \<lparr>event_id = 7, event_type = ''T'', attribute_name = '''', created_at = 540000000\<rparr>)],
      [(600000000, \<lparr>event_id = 7, event_type = ''T'', attribute_name = '''', created_at = 540000000\<rparr>),
       (600000000, \<lparr>event_id = 11, event_type = ''T'', attribute_name = '''', created_at = 0\<rparr>)],
      [(600000000, \<lparr>event_id = 7, event_type = ''T'', attribute_name = '''', created_at = 540000000\<rparr>),
       (600000000, \<lparr>event_id = 11, event_type = ''T'', attribute_name = '''', created_at = 0\<rparr>),
       (660000000, \<lparr>event_id = 5, event_type = ''T'', attribute_name = '''', created_at = 650000000\<rparr>)]]
   = [(Some 7, [4, 5, 6]), (Some 11, [4, 5, 6]), (Some 5, [4, 6])]"
  by (simp add: Plugin_process_def Plugin__process_def Plugin__updateLastEventId_def in_dict_def
      Callback_process_def canProcess_def minutes_def BACKLOG_TIMEOUT_def upto.simps)

section \<open>Properties of the cursor over a run\<close>

text \<open>
  Claim C1, as amended. A call of \<^verbatim>\<open>process\<close> on an event whose id is not a key of the
  backlog never lowers \<^verbatim>\<open>lastId\<close>. A call on an event whose id is a key of the backlog
  sets \<^verbatim>\<open>lastId\<close> to that id when the dispatch leaves the plugin active, whatever
  \<^verbatim>\<open>lastId\<close> was, and leaves \<^verbatim>\<open>lastId\<close> as it was otherwise.
\<close>

theorem lastEventId_monotone_outside_backlog:
  "(\<not> in_dict (event_id e) (backlog p) \<longrightarrow>
      (case lastEventId p of None \<Rightarrow> True
       | Some l \<Rightarrow> \<exists>l'. lastEventId (fst (Plugin_process now e p)) = Some l' \<and> l \<le> l')) \<and>
   (in_dict (event_id e) (backlog p) \<longrightarrow>
      lastEventId (fst (Plugin_process now e p)) =
        (if active (fst (Plugin__process e p)) then Some (event_id e) else lastEventId p))"
  by (auto simp: Plugin_process_def case_prod_beta split: option.splits)

theorem lastEventId_monotone_outside_backlog_witness:
  "\<not> in_dict (11::int) ([] :: backlog) \<and>
   (\<exists>l'. lastEventId (fst (Plugin_process 600000000
       \<lparr>event_id = 11, event_type = ''T'', attribute_name = '''', created_at = 590000000\<rparr>
       \<lparr>pluginName = ''p'', active = True, callbacks = [] :: event callback list,
        lastEventId = Some 10, backlog = []\<rparr>)) = Some l' \<and> 10 \<le> l')"
  using lastEventId_monotone_outside_backlog
    [of "\<lparr>event_id = 11, event_type = ''T'', attribute_name = '''', created_at = 590000000\<rparr>"
        "\<lparr>pluginName = ''p'', active = True, callbacks = [] :: event callback list,
          lastEventId = Some 10, backlog = []\<rparr>" 600000000]
  by (simp add: in_dict_def)

text \<open>
  The claim as written fails on a backlog replay. A plugin with cursor 10 receives event 11,
  then event 13 created one minute before (12 enters the backlog), then event 12: the
  values of \<^verbatim>\<open>lastId\<close> after the three calls are 11, 13 and 12.
\<close>

theorem lastEventId_backlog_replay_counterexample:
  "Plugin_process_run
     [(600000000, \<lparr>event_id = 11, event_type = ''T'', attribute_name = '''', created_at = 590000000\<rparr>),
      (600000000, \<lparr>event_id = 13, event_type = ''T'', attribute_name = '''', created_at = 540000000\<rparr>),
      (630000000, \<lparr>event_id = 12, event_type = ''T'', attribute_name = '''', created_at = 620000000\<rparr>)]
     \<lparr>pluginName = ''p'', active = True,
      callbacks = [\<lparr>cb_name = ''B'', cb_callback = (\<lambda>e. False), cb_matchEvents = [],
                    cb_stopOnError = False, cb_active = True\<rparr>],
      lastEventId = Some 10, backlog = []\<rparr>
   = [Some 11, Some 13, Some 12]"
  by (simp add: Plugin_process_def Plugin__process_def Plugin__updateLastEventId_def in_dict_def
      Callback_process_def canProcess_def minutes_def BACKLOG_TIMEOUT_def upto.simps)

section \<open>Properties of a callback that stops on error\<close>

lemma invocations_append [simp]: "invocations (xs @ ys) = invocations xs @ invocations ys"
  by (induction xs rule: invocations.induct) simp_all

lemma Callback_process_invocations [simp]:
  "invocations (snd (Callback_process c x)) = [(cb_name c, x)]"
  by (simp add: Callback_process_def)





section \<open>Properties of the batch dispatch\<close>

lemma updateLastEventId_callbacks [simp]:
  "callbacks (fst (Plugin__updateLastEventId now e p)) = callbacks p"
  by (simp add: Plugin__updateLastEventId_def Let_def split: option.splits)

lemma updateLastEventId_active [simp]:
  "active (fst (Plugin__updateLastEventId now e p)) = active p"
  by (simp add: Plugin__updateLastEventId_def Let_def split: option.splits)

lemma invocations_Log [simp]: "invocations (map (\<lambda>k. Log l (f k)) ks) = []"
  by (induction ks) simp_all

lemma updateLastEventId_invocations [simp]:
  "invocations (snd (Plugin__updateLastEventId now e p)) = []"
  by (simp add: Plugin__updateLastEventId_def Let_def split: option.splits)











text \<open>
  Without a failure the whole list is dispatched, and \<^verbatim>\<open>lastId\<close> ends at the id of the
  backlog event, 12, below its former value 13 and below the dispatched event 14.
\<close>

lemma BatchPlugin_process_cursor_goes_back:
  "BatchPlugin_process 630000000
       [\<lparr>event_id = 12, event_type = ''T'', attribute_name = '''', created_at = 620000000\<rparr>,
        \<lparr>event_id = 14, event_type = ''T'', attribute_name = '''', created_at = 625000000\<rparr>]
       \<lparr>pluginName = ''p'', active = True,
        callbacks = [\<lparr>cb_name = ''B'', cb_callback = (\<lambda>es. False), cb_matchEvents = [],
                      cb_stopOnError = False, cb_active = True\<rparr>],
        lastEventId = Some 13, backlog = [(12, 900000000)]\<rparr>
   = Inr (\<lparr>pluginName = ''p'', active = True,
        callbacks = [\<lparr>cb_name = ''B'', cb_callback = (\<lambda>es. False), cb_matchEvents = [],
                      cb_stopOnError = False, cb_active = True\<rparr>],
        lastEventId = Some 12, backlog = []\<rparr>,
      [Log Debug (Dispatching [12, 14] ''B''),
       Invoke ''B''
         [\<lparr>event_id = 12, event_type = ''T'', attribute_name = '''', created_at = 620000000\<rparr>,
          \<lparr>event_id = 14, event_type = ''T'', attribute_name = '''', created_at = 625000000\<rparr>],
       Log Info (ProcessedFromBacklog 12)])"
  by (simp add: BatchPlugin_process_def BatchPlugin__process_def in_dict_def
      Callback_process_def canProcess_def Plugin__updateLastEventId_def)

section \<open>Properties of the state of a collection\<close>

lemma setState_int_loop_plugins:
  "fst (PluginCollection_setState_int_loop s ps sd) = map (\<lambda>p. p\<lparr>lastEventId := Some s\<rparr>) ps"
  by (induction ps arbitrary: sd) (simp_all add: case_prod_beta Plugin_setState_def)

lemma setState_int_loop_stateData_other:
  "n \<notin> pluginName ` set ps \<Longrightarrow>
   map_of (snd (PluginCollection_setState_int_loop s ps sd)) n = map_of sd n"
  by (induction ps arbitrary: sd) (auto simp add: case_prod_beta update_conv')

lemma getState_fold_other:
  "n \<notin> pluginName ` set ps \<Longrightarrow>
   map_of (fold (\<lambda>p. AList.update (pluginName p) (Plugin_getState p)) ps sd) n = map_of sd n"
  by (induction ps arbitrary: sd) (auto simp add: update_conv')

text \<open>
  Claim C7, as amended. \<^verbatim>\<open>setState\<close> with a bare integer \<open>s\<close> sets the \<^verbatim>\<open>lastId\<close> of
  every plugin to \<open>s\<close> and leaves every backlog as it was; the entries of
  \<^verbatim>\<open>_stateData\<close> under other names are kept. \<^verbatim>\<open>setState\<close> with a mapping stores the
  mapping, sets the state of each present plugin named in it (both \<^verbatim>\<open>lastId\<close> and backlog
  from a pair, \<^verbatim>\<open>lastId\<close> alone from a non-zero integer), leaves the other plugins as they
  were, and the entries under names of no present plugin are still there when the state is
  read back with \<^verbatim>\<open>getState\<close>.
\<close>

theorem PluginCollection_setState_shapes:
  "plugins (PluginCollection_setState (BareInt s) c) =
     map (\<lambda>p. p\<lparr>lastEventId := Some s\<rparr>) (plugins c) \<and>
   (\<forall>n. n \<notin> pluginName ` set (plugins c) \<longrightarrow>
      map_of (stateData (PluginCollection_setState (BareInt s) c)) n = map_of (stateData c) n) \<and>
   plugins (PluginCollection_setState (Mapping m) c) =
     map (\<lambda>p. case map_of m (pluginName p) of
                 None \<Rightarrow> p
               | Some (IntState i) \<Rightarrow> if i = 0 then p else p\<lparr>lastEventId := Some i\<rparr>
               | Some (TupleState l b) \<Rightarrow> p\<lparr>lastEventId := l, backlog := b\<rparr>) (plugins c) \<and>
   stateData (PluginCollection_setState (Mapping m) c) = m \<and>
   (\<forall>n. n \<notin> pluginName ` set (plugins c) \<longrightarrow>
      map_of (snd (PluginCollection_getState (PluginCollection_setState (Mapping m) c))) n =
      map_of m n)"
proof (intro conjI allI impI)
  show "plugins (PluginCollection_setState (BareInt s) c) =
     map (\<lambda>p. p\<lparr>lastEventId := Some s\<rparr>) (plugins c)"
    by (simp add: PluginCollection_setState_def case_prod_beta setState_int_loop_plugins)
next
  fix n assume "n \<notin> pluginName ` set (plugins c)"
  then show "map_of (stateData (PluginCollection_setState (BareInt s) c)) n = map_of (stateData c) n"
    by (simp add: PluginCollection_setState_def case_prod_beta setState_int_loop_stateData_other)
next
  show "plugins (PluginCollection_setState (Mapping m) c) =
     map (\<lambda>p. case map_of m (pluginName p) of
                 None \<Rightarrow> p
               | Some (IntState i) \<Rightarrow> if i = 0 then p else p\<lparr>lastEventId := Some i\<rparr>
               | Some (TupleState l b) \<Rightarrow> p\<lparr>lastEventId := l, backlog := b\<rparr>) (plugins c)"
    by (auto simp add: PluginCollection_setState_def truthy_def Plugin_setState_def
        split: option.splits plugin_state.splits)
next
  show "stateData (PluginCollection_setState (Mapping m) c) = m"
    by (simp add: PluginCollection_setState_def)
next
  fix n assume n: "n \<notin> pluginName ` set (plugins c)"
  have "pluginName ` set (plugins (PluginCollection_setState (Mapping m) c)) = pluginName ` set (plugins c)"
    by (auto simp add: PluginCollection_setState_def Plugin_setState_def image_iff
        split: option.splits plugin_state.splits) 
  then show "map_of (snd (PluginCollection_getState (PluginCollection_setState (Mapping m) c))) n =
      map_of m n"
    using n getState_fold_other [of n "plugins (PluginCollection_setState (Mapping m) c)" m]
    by (simp add: PluginCollection_getState_def Let_def PluginCollection_setState_def)
qed

text \<open>
  The claim as written fails for the bare integer: a plugin with a backlog keeps it.
\<close>

theorem PluginCollection_setState_int_counterexample:
  "plugins (PluginCollection_setState (BareInt 7)
     \<lparr>path = ''/plugins'',
      plugins = [\<lparr>pluginName = ''p'', active = True, callbacks = [] :: event callback list,
                  lastEventId = Some 5, backlog = [(3, 100)]\<rparr>],
      stateData = []\<rparr>)
   = [\<lparr>pluginName = ''p'', active = True, callbacks = [],
       lastEventId = Some 7, backlog = [(3, 100)]\<rparr>]"
  by (simp add: PluginCollection_setState_def Plugin_setState_def)

theorem PluginCollection_setState_shapes_witness:
  "''q'' \<notin> pluginName ` set [\<lparr>pluginName = ''p'', active = True, callbacks = [] :: event callback list,
                  lastEventId = None, backlog = []\<rparr>] \<and>
   map_of (snd (PluginCollection_getState (PluginCollection_setState
       (Mapping [(''p'', TupleState (Some 40) [(38, 100)]), (''q'', TupleState (Some 30) [])])
       \<lparr>path = ''/plugins'',
        plugins = [\<lparr>pluginName = ''p'', active = True, callbacks = [] :: event callback list,
                  lastEventId = None, backlog = []\<rparr>],
        stateData = []\<rparr>))) ''q'' = Some (TupleState (Some 30) []) \<and>
   plugins (PluginCollection_setState
       (Mapping [(''p'', TupleState (Some 40) [(38, 100)]), (''q'', TupleState (Some 30) [])])
       \<lparr>path = ''/plugins'',
        plugins = [\<lparr>pluginName = ''p'', active = True, callbacks = [] :: event callback list,
                  lastEventId = None, backlog = []\<rparr>],
        stateData = []\<rparr>)
   = [\<lparr>pluginName = ''p'', active = True, callbacks = [],
                  lastEventId = Some 40, backlog = [(38, 100)]\<rparr>]"
  using PluginCollection_setState_shapes [of 0 "\<lparr>path = ''/plugins'',
        plugins = [\<lparr>pluginName = ''p'', active = True, callbacks = [] :: event callback list,
                  lastEventId = None, backlog = []\<rparr>],
        stateData = []\<rparr>" "[(''p'', TupleState (Some 40) [(38, 100)]), (''q'', TupleState (Some 30) [])]"]
  by simp

section \<open>Properties of a fetch that exhausts its attempts\<close>

lemma getNextUnprocessedEventId_plugin:
  "fst (snd (getNextUnprocessedEventId now p)) =
     p\<lparr>backlog := filter (\<lambda>(k, v). \<not> v < now) (backlog p)\<rparr>"
  by (simp add: getNextUnprocessedEventId_def Let_def case_prod_beta backlog_scan_backlog)

lemma collection_next_loop_plugins:
  "fst (PluginCollection_getNextUnprocessedEventId_loop now ps eId) = map (prune_expired now) ps"
  by (induction ps arbitrary: eId)
     (simp_all add: case_prod_beta prune_expired_def getNextUnprocessedEventId_plugin)

lemma collect_nextIds_collections:
  "fst (Engine_collect_nextIds now colls) =
     map (\<lambda>c. c\<lparr>plugins := map (prune_expired now) (plugins c)\<rparr>) colls"
  by (induction colls)
     (simp_all add: case_prod_beta PluginCollection_getNextUnprocessedEventId_def
        collection_next_loop_plugins)

lemma attempts_all_fail:
  "\<forall>i\<in>set is. \<exists>err. sg_find b i = Raised err \<Longrightarrow>
   Engine__getNewEvents_attempts sg_find eng b is =
     (None, concat (map (\<lambda>i. Engine__writeConnectionAttemptLog eng i (failure_text (sg_find b i))) is))"
  by (induction "is") (auto simp: failure_text_def)

lemma concat_map_single:
  "\<forall>i\<in>set is. g i = [h i] \<Longrightarrow> concat (map g is) = map h is"
  by (induction "is") auto

lemma attempt_logs:
  assumes "0 < maxConnRetries eng"
  shows "concat (map (\<lambda>i. Engine__writeConnectionAttemptLog eng i (f i)) [0 .. maxConnRetries eng - 1]) =
     map (\<lambda>i. EngineLog Warning (UnableToConnect i (maxConnRetries eng) (f i)))
         [0 .. maxConnRetries eng - 2]
     @ [EngineLog Error (UnableToConnect (maxConnRetries eng - 1) (maxConnRetries eng)
                          (f (maxConnRetries eng - 1))),
        Sleep (connRetrySleep eng)]"
proof -
  have split: "[0 .. maxConnRetries eng - 1] = [0 .. maxConnRetries eng - 2] @ [maxConnRetries eng - 1]"
    using assms upto_rec2 [of 0 "maxConnRetries eng - 1"] by (simp add: algebra_simps)
  have early: "concat (map (\<lambda>i. Engine__writeConnectionAttemptLog eng i (f i)) [0 .. maxConnRetries eng - 2])
      = map (\<lambda>i. EngineLog Warning (UnableToConnect i (maxConnRetries eng) (f i))) [0 .. maxConnRetries eng - 2]"
    by (rule concat_map_single) (auto simp: Engine__writeConnectionAttemptLog_def)
  show ?thesis
    unfolding split using early  by (simp add: Engine__writeConnectionAttemptLog_def del: upto.simps)
qed

text \<open>
  Claim C6, as amended. In a fetch of new events in which every attempt fails with a
  protocol, response, socket or unknown error, the batch returned is empty and no
  \<^verbatim>\<open>lastId\<close> changes; the backlog of a plugin changes only in that an active plugin loses
  its expired keys, when the next id is computed before the first attempt. When there is a
  next id and \<^verbatim>\<open>maxConnRetries\<close> is positive, the attempts before the last are logged
  at warning, and the last at error, followed by a sleep of \<^verbatim>\<open>connRetrySleep\<close>.
\<close>

theorem getNewEvents_all_attempts_fail:
  assumes fail: "\<forall>b. \<forall>i\<in>{0 .. maxConnRetries eng - 1}. \<exists>err. sg_find b i = Raised err"
  shows "fst (Engine__getNewEvents now sg_find eng) = [] \<and>
    fst (snd (Engine__getNewEvents now sg_find eng)) =
      eng\<lparr>pluginCollections :=
            map (\<lambda>c. c\<lparr>plugins := map (prune_expired now) (plugins c)\<rparr>) (pluginCollections eng)\<rparr> \<and>
    map (\<lambda>c. map lastEventId (plugins c))
        (pluginCollections (fst (snd (Engine__getNewEvents now sg_find eng)))) =
      map (\<lambda>c. map lastEventId (plugins c)) (pluginCollections eng) \<and>
    snd (snd (Engine__getNewEvents now sg_find eng)) =
      snd (snd (Engine_collect_nextIds now (pluginCollections eng))) @
      (case Engine_nextEventId now eng of
         None \<Rightarrow> []
       | Some n \<Rightarrow>
           if maxConnRetries eng \<le> 0 then []
           else map (\<lambda>i. EngineLog Warning
                            (UnableToConnect i (maxConnRetries eng) (failure_text (sg_find (n - 1) i))))
                    [0 .. maxConnRetries eng - 2]
                @ [EngineLog Error
                     (UnableToConnect (maxConnRetries eng - 1) (maxConnRetries eng)
                        (failure_text (sg_find (n - 1) (maxConnRetries eng - 1)))),
                   Sleep (connRetrySleep eng)])"
proof -
  let ?colls = "map (\<lambda>c. c\<lparr>plugins := map (prune_expired now) (plugins c)\<rparr>) (pluginCollections eng)"
  let ?eng = "eng\<lparr>pluginCollections := ?colls\<rparr>"
  have A: "\<And>b. Engine__getNewEvents_attempts sg_find ?eng b [0 .. maxConnRetries eng - 1] =
     (None, concat (map (\<lambda>i. Engine__writeConnectionAttemptLog ?eng i (failure_text (sg_find b i)))
                    [0 .. maxConnRetries eng - 1]))"
    using fail by (intro attempts_all_fail) simp
  have lasts: "map (\<lambda>c. map lastEventId (plugins c)) ?colls =
      map (\<lambda>c. map lastEventId (plugins c)) (pluginCollections eng)"
    by (simp add: comp_def prune_expired_def)
  have logs: "\<And>b. 0 < maxConnRetries eng \<Longrightarrow>
     concat (map (\<lambda>i. Engine__writeConnectionAttemptLog ?eng i (failure_text (sg_find b i)))
                    [0 .. maxConnRetries eng - 1]) =
     map (\<lambda>i. EngineLog Warning (UnableToConnect i (maxConnRetries eng) (failure_text (sg_find b i))))
         [0 .. maxConnRetries eng - 2]
     @ [EngineLog Error (UnableToConnect (maxConnRetries eng - 1) (maxConnRetries eng)
                          (failure_text (sg_find b (maxConnRetries eng - 1)))),
        Sleep (connRetrySleep eng)]"
    using attempt_logs [of ?eng] by simp
  have none: "maxConnRetries eng \<le> 0 \<Longrightarrow> [0 .. maxConnRetries eng - 1] = []" by simp
  show ?thesis
  proof (cases "Engine_nextEventId now eng")
    case None
    then show ?thesis using lasts
      by (simp add: Engine__getNewEvents_def Engine_nextEventId_def case_prod_beta
          collect_nextIds_collections del: upto.simps)
  next
    case (Some n)
    show ?thesis
    proof (cases "maxConnRetries eng \<le> 0")
      case True
      then show ?thesis using Some lasts A [of "n - 1"] none
        by (simp add: Engine__getNewEvents_def Engine_nextEventId_def case_prod_beta
            collect_nextIds_collections del: upto.simps)
    next
      case False
      then have "0 < maxConnRetries eng" by simp
      then show ?thesis using Some lasts A [of "n - 1"] logs [of "n - 1"]
        by (simp add: Engine__getNewEvents_def Engine_nextEventId_def case_prod_beta
            collect_nextIds_collections del: upto.simps)
    qed
  qed
qed

theorem getNewEvents_all_attempts_fail_witness:
  "Engine__getNewEvents 1 (\<lambda>b i. Raised (SocketError ''timed out''))
     \<lparr>pluginCollections =
        [\<lparr>path = ''/plugins'',
          plugins = [\<lparr>pluginName = ''p'', active = True, callbacks = [] :: event callback list,
                      lastEventId = Some 10, backlog = []\<rparr>],
          stateData = []\<rparr>],
      maxConnRetries = 3, connRetrySleep = 60, eventIdData = []\<rparr>
   = ([],
      \<lparr>pluginCollections =
        [\<lparr>path = ''/plugins'',
          plugins = [\<lparr>pluginName = ''p'', active = True, callbacks = [] :: event callback list,
                      lastEventId = Some 10, backlog = []\<rparr>],
          stateData = []\<rparr>],
      maxConnRetries = 3, connRetrySleep = 60, eventIdData = []\<rparr>,
      [EngineLog Warning (UnableToConnect 0 3 ''timed out''),
       EngineLog Warning (UnableToConnect 1 3 ''timed out''),
       EngineLog Error (UnableToConnect 2 3 ''timed out''),
       Sleep 60])"
proof -
  let ?f = "(\<lambda>b i. Raised (SocketError ''timed out'')) :: int \<Rightarrow> int \<Rightarrow> event list sg_result"
  let ?eng = "\<lparr>pluginCollections =
        [\<lparr>path = ''/plugins'',
          plugins = [\<lparr>pluginName = ''p'', active = True, callbacks = [] :: event callback list,
                      lastEventId = Some 10, backlog = []\<rparr>],
          stateData = []\<rparr>],
      maxConnRetries = 3, connRetrySleep = 60, eventIdData = []\<rparr>"
  have h: "\<forall>b. \<forall>i\<in>{0 .. maxConnRetries ?eng - 1}. \<exists>err. ?f b i = Raised err" by simp
  have n: "Engine_nextEventId 1 ?eng = Some 11"
    by (simp add: Engine_nextEventId_def PluginCollection_getNextUnprocessedEventId_def
        getNextUnprocessedEventId_def)
  have t: "snd (snd (Engine_collect_nextIds 1 (pluginCollections ?eng))) = []"
    by (simp add: PluginCollection_getNextUnprocessedEventId_def getNextUnprocessedEventId_def)
  have u: "[0 .. (1::int)] = [0, 1]" by (simp add: upto.simps)
  show ?thesis
    using getNewEvents_all_attempts_fail [OF h, of 1] n t u
    by (simp add: prod_eq_iff prune_expired_def failure_text_def attempt_message_def)
qed

text \<open>
  The claim as written fails for a plugin with an expired backlog key: the fetch fails at
  every attempt and the key is gone from the backlog.
\<close>

theorem getNewEvents_backlog_counterexample:
  "Engine__getNewEvents 1 (\<lambda>b i. Raised (SocketError ''timed out''))
     \<lparr>pluginCollections =
        [\<lparr>path = ''/plugins'',
          plugins = [\<lparr>pluginName = ''p'', active = True, callbacks = [] :: event callback list,
                      lastEventId = Some 10, backlog = [(8, 0)]\<rparr>],
          stateData = []\<rparr>],
      maxConnRetries = 2, connRetrySleep = 60, eventIdData = []\<rparr>
   = ([],
      \<lparr>pluginCollections =
        [\<lparr>path = ''/plugins'',
          plugins = [\<lparr>pluginName = ''p'', active = True, callbacks = [] :: event callback list,
                      lastEventId = Some 10, backlog = []\<rparr>],
          stateData = []\<rparr>],
      maxConnRetries = 2, connRetrySleep = 60, eventIdData = []\<rparr>,
      [PluginEffect ''p'' (Log Warning (TimeoutElapsed 8)),
       EngineLog Warning (UnableToConnect 0 2 ''timed out''),
       EngineLog Error (UnableToConnect 1 2 ''timed out''),
       Sleep 60])"
  by (simp add: Engine__getNewEvents_def PluginCollection_getNextUnprocessedEventId_def
      getNextUnprocessedEventId_def Engine__writeConnectionAttemptLog_def attempt_message_def
      upto.simps)

section \<open>Properties of the registrar\<close>



section \<open>Properties of the legacy cursor file\<close>

text \<open>
  The digits read by the loader are the number written: the decimal numeral of \<open>n\<close> passes
  \<^verbatim>\<open>isdigit\<close> and \<^verbatim>\<open>int\<close> gives \<open>n\<close> back.
\<close>

lemma digit_cases: "d < 10 \<Longrightarrow> d \<in> {0, 1, 2, 3, 4, 5, 6, 7, 8, 9::nat}"
  by auto

lemma digit_value_nth: "d < 10 \<Longrightarrow> digit_value (''0123456789'' ! d) = int d"
  using digit_cases [of d] by (auto simp: digit_value_def)

lemma digit_nth_in: "d < 10 \<Longrightarrow> ''0123456789'' ! d \<in> set ''0123456789''"
  using digit_cases [of d] by auto

lemma int_of_digits_snoc:
  "int_of_digits (s @ [c]) = 10 * int_of_digits s + digit_value c"
  by (simp add: int_of_digits_def)

lemma isdigit_decimal: "isdigit (decimal n)"
proof (induction n rule: decimal.induct)
  case (1 n)
  show ?case
  proof (cases "n < 10")
    case True
    then show ?thesis using digit_nth_in [of n] by (subst decimal.simps) (simp add: isdigit_def)
  next
    case False
    then show ?thesis using 1 digit_nth_in [of "n mod 10"]
      by (subst decimal.simps) (simp add: isdigit_def)
  qed
qed

lemma int_of_digits_decimal: "int_of_digits (decimal n) = int n"
proof (induction n rule: decimal.induct)
  case (1 n)
  show ?case
  proof (cases "n < 10")
    case True
    then show ?thesis using digit_value_nth [of n]
      by (subst decimal.simps) (simp add: int_of_digits_def)
  next
    case False
    then have "int_of_digits (decimal n) = 10 * int (n div 10) + int (n mod 10)"
      using 1 digit_value_nth [of "n mod 10"]
      by (subst decimal.simps) (simp add: int_of_digits_snoc)
    moreover have "10 * (n div 10) + n mod 10 = n" by simp
    then have "10 * int (n div 10) + int (n mod 10) = int n" by linarith
    ultimately show ?thesis by simp
  qed
qed




end
